theory Spec2Isabelle
  imports Main "HOL-Library.Sublist"
begin

section \<open>The Springer metadata source: \<open>SpringerMetadata.identify\<close>\<close>

text \<open>
  The plugin is one method, \<open>identify\<close> (\<open>src/__init__.py\<close>, lines 33 to 140). It reads an
  ISBN from the identifier mapping, fetches \<open>https://link.springer.com/book/<isbn>\<close>, parses
  the page, reads labelled fields with fixed XPath queries and puts one \<open>Metadata\<close> object
  into the result queue.

  Python text (\<open>str\<close>) is modelled as \<^typ>\<open>string\<close>, one \<^typ>\<open>char\<close> per code point, so
  the model covers the code points below 256. The byte string returned by the HTTP
  response is a list of 8-bit characters as well.
\<close>

type_synonym bytes = string

subsection \<open>Exceptions\<close>

text \<open>
  The handlers of \<open>identify\<close> tell two kinds of exception apart: \<open>urllib.error.HTTPError\<close>,
  which carries the status code, and every other subclass of \<open>Exception\<close>. \<open>str_exn\<close> is
  Python's \<open>str(e)\<close>, which the f-string of line 139 formats.
\<close>

datatype exn =
  HTTPError (code: int) (reason: string)
| Exception (message: string)

subsection \<open>Library functions on text\<close>

text \<open>\<open>str.isspace\<close> on one code point below 256.\<close>

definition isspace :: "char \<Rightarrow> bool" where
  "isspace c =
     (let n = (of_char c :: nat)
      in (9 \<le> n \<and> n \<le> 13) \<or> (28 \<le> n \<and> n \<le> 32) \<or> n = 133 \<or> n = 160)"

text \<open>\<open>s.strip()\<close>: white space removed at both ends.\<close>

definition strip :: "string \<Rightarrow> string" where
  "strip s = rev (dropWhile isspace (rev (dropWhile isspace s)))"

text \<open>\<open>sub in s\<close> on two pieces of text.\<close>

fun contains :: "string \<Rightarrow> string \<Rightarrow> bool" where
  "contains sub [] = (sub = [])"
| "contains sub (c # cs) = (prefix sub (c # cs) \<or> contains sub cs)"

text \<open>
  \<open>s.replace(old, new)\<close>: every occurrence of \<open>old\<close>, found from the left and not
  overlapping, becomes \<open>new\<close>. With an empty \<open>old\<close> Python puts \<open>new\<close> before every
  character and at the end.
\<close>

fun replace :: "string \<Rightarrow> string \<Rightarrow> string \<Rightarrow> string" where
  "replace old new [] = (if old = [] then new else [])"
| "replace old new (c # cs) =
     (if old = [] then new @ c # replace old new cs
      else if prefix old (c # cs) then new @ replace old new (drop (length old - 1) cs)
      else c # replace old new cs)"

text \<open>\<open>s.split(',')\<close> for a one-character separator: one more segment than separators.\<close>

fun split :: "char \<Rightarrow> string \<Rightarrow> string list" where
  "split sep [] = [[]]"
| "split sep (c # cs) =
     (if c = sep then [] # split sep cs
      else (case split sep cs of
              [] \<Rightarrow> [[c]]
            | seg # segs \<Rightarrow> (c # seg) # segs))"

text \<open>\<open>sep.join(xs)\<close>.\<close>

fun join :: "string \<Rightarrow> string list \<Rightarrow> string" where
  "join sep [] = []"
| "join sep [x] = x"
| "join sep (x # y # ys) = x @ sep @ join sep (y # ys)"

text \<open>\<open>str(n)\<close> for an integer: decimal digits, a minus sign when negative.\<close>

definition digit_char :: "nat \<Rightarrow> char" where
  "digit_char d = char_of (48 + d)"

fun str_nat :: "nat \<Rightarrow> string" where
  "str_nat n = (if n < 10 then [digit_char n] else str_nat (n div 10) @ [digit_char (n mod 10)])"

declare str_nat.simps [simp del]

definition str_int :: "int \<Rightarrow> string" where
  "str_int i = (if i < 0 then CHR ''-'' # str_nat (nat (- i)) else str_nat (nat i))"

definition str_exn :: "exn \<Rightarrow> string" where
  "str_exn e =
     (case e of
        HTTPError c r \<Rightarrow> ''HTTP Error '' @ str_int c @ '': '' @ r
      | Exception m \<Rightarrow> m)"

subsection \<open>The parsed page\<close>

text \<open>
  \<open>etree.fromstring\<close> returns the root of an lxml element tree. An element has a tag, its
  attributes, the text before its first child (\<open>.text\<close>, here \<open>el_text\<close>; \<open>None\<close> when
  there is none), its children, and the text that follows its end tag (\<open>.tail\<close>). A
  comment of the page sits in the tree as a child whose tag no query asks for.
\<close>

datatype element =
  Element (tag: string) (attrib: "(string \<times> string) list")
          (el_text: "string option") (children: "element list") (tail: "string option")

text \<open>The descendants of an element in document order, the element itself left out.\<close>

fun descendants :: "element \<Rightarrow> element list" where
  "descendants (Element t a x cs y) = concat (map (\<lambda>c. c # descendants c) cs)"

text \<open>The XPath string value \<open>string()\<close>: all text inside the element, in document order.\<close>

definition opt_text :: "string option \<Rightarrow> string" where
  "opt_text t = (case t of None \<Rightarrow> [] | Some s \<Rightarrow> s)"

fun string_value :: "element \<Rightarrow> string" where
  "string_value (Element t a x cs y) =
     opt_text x @ concat (map (\<lambda>c. string_value c @ opt_text (tail c)) cs)"

text \<open>
  The predicate \<open>[@name='v']\<close> holds when the attribute is there with that value, and
  \<open>[contains(@name, 'v')]\<close> when the attribute's value (the empty string when the
  attribute is missing) contains \<open>v\<close>.
\<close>

definition attr_is :: "string \<Rightarrow> string \<Rightarrow> element \<Rightarrow> bool" where
  "attr_is name v e = (map_of (attrib e) name = Some v)"

definition attr_contains :: "string \<Rightarrow> string \<Rightarrow> element \<Rightarrow> bool" where
  "attr_contains name v e = contains v (opt_text (map_of (attrib e) name))"

text \<open>
  The queries of the source. \<open>//section[...]\<close> starts at the document root and so
  looks at the root too; the queries starting with \<open>.//\<close> look at proper descendants.
\<close>

definition xpath_section :: "string \<Rightarrow> element \<Rightarrow> element list" where
  "xpath_section title tree =
     filter (\<lambda>e. tag e = ''section'' \<and> attr_is ''data-title'' title e) (tree # descendants tree)"

definition xpath_desc :: "string \<Rightarrow> string \<Rightarrow> string \<Rightarrow> element \<Rightarrow> element list" where
  "xpath_desc t name v e =
     filter (\<lambda>d. tag d = t \<and> attr_contains name v d) (descendants e)"

definition xpath_a :: "element \<Rightarrow> element list" where
  "xpath_a e = filter (\<lambda>d. tag d = ''a'') (descendants e)"

subsection \<open>\<open>datetime.datetime.strptime\<close>\<close>

text \<open>
  The standard library turns a format into a regular expression and matches it at the start
  of the text with a backtracking matcher (\<open>re.match\<close>, ignoring case): the first path
  that succeeds is the match. It raises \<open>ValueError\<close> when nothing matches, when text is
  left after the match, and when the fields found are no calendar date. The source uses
  three formats, made of the directives \<open>%d\<close>, \<open>%B\<close>, \<open>%Y\<close> and single blanks:
  \<^item> \<open>%d\<close> is \<open>3[0-1]|[1-2]\d|0[1-9]|[1-9]| [1-9]\<close>, the alternatives tried in this
    order;
  \<^item> \<open>%B\<close> is the alternation of the month names in lower case, longest first (the
    names of the C locale, \<open>calendar.month_name\<close>);
  \<^item> \<open>%Y\<close> is \<open>\d\d\d\d\<close>;
  \<^item> white space in the format is \<open>\s+\<close>, greedy.
  The time of day of the result is always midnight and is left out of the record.
\<close>

record datetime =
  year :: nat
  month :: nat
  day :: nat

datatype directive = Dir_d | Dir_B | Dir_Y | Blank

definition fmt_d_B_Y :: "directive list" where
  "fmt_d_B_Y = [Dir_d, Blank, Dir_B, Blank, Dir_Y]"  \<comment> \<open>\<open>'%d %B %Y'\<close>\<close>

definition fmt_B_Y :: "directive list" where
  "fmt_B_Y = [Dir_B, Blank, Dir_Y]"  \<comment> \<open>\<open>'%B %Y'\<close>\<close>

definition fmt_Y :: "directive list" where
  "fmt_Y = [Dir_Y]"  \<comment> \<open>\<open>'%Y'\<close>\<close>

record found =
  found_d :: "nat option"
  found_B :: "nat option"
  found_Y :: "nat option"

definition no_groups :: found where
  "no_groups = \<lparr>found_d = None, found_B = None, found_Y = None\<rparr>"

definition isdigit :: "char \<Rightarrow> bool" where
  "isdigit c = (let n = (of_char c :: nat) in 48 \<le> n \<and> n \<le> 57)"

definition digit_val :: "char \<Rightarrow> nat" where
  "digit_val c = of_char c - 48"

definition lower :: "char \<Rightarrow> char" where
  "lower c = (let n = (of_char c :: nat) in if 65 \<le> n \<and> n \<le> 90 then char_of (n + 32) else c)"

definition f_month :: "(string \<times> nat) list" where
  "f_month =
     [(''september'', 9), (''february'', 2), (''november'', 11), (''december'', 12),
      (''january'', 1), (''october'', 10), (''august'', 8), (''march'', 3), (''april'', 4),
      (''june'', 6), (''july'', 7), (''may'', 5)]"

text \<open>The ways one directive can match at the start of the text, in the matcher's order.\<close>

definition match_d :: "string \<Rightarrow> (nat \<times> string) list" where
  "match_d s =
     (case s of
        a # b # r \<Rightarrow>
          (if a = CHR ''3'' \<and> (b = CHR ''0'' \<or> b = CHR ''1'') then [(30 + digit_val b, r)] else [])
          @ (if (a = CHR ''1'' \<or> a = CHR ''2'') \<and> isdigit b
             then [(10 * digit_val a + digit_val b, r)] else [])
          @ (if a = CHR ''0'' \<and> isdigit b \<and> b \<noteq> CHR ''0'' then [(digit_val b, r)] else [])
      | _ \<Rightarrow> [])
     @ (case s of
          a # r \<Rightarrow> (if isdigit a \<and> a \<noteq> CHR ''0'' then [(digit_val a, r)] else [])
        | _ \<Rightarrow> [])
     @ (case s of
          a # b # r \<Rightarrow>
            (if a = CHR '' '' \<and> isdigit b \<and> b \<noteq> CHR ''0'' then [(digit_val b, r)] else [])
        | _ \<Rightarrow> [])"

definition match_B :: "string \<Rightarrow> (nat \<times> string) list" where
  "match_B s =
     concat (map (\<lambda>(name, m).
                    if map lower (take (length name) s) = name
                    then [(m, drop (length name) s)] else [])
                 f_month)"

definition match_Y :: "string \<Rightarrow> (nat \<times> string) list" where
  "match_Y s =
     (case s of
        a # b # c # e # r \<Rightarrow>
          (if isdigit a \<and> isdigit b \<and> isdigit c \<and> isdigit e
           then [(1000 * digit_val a + 100 * digit_val b + 10 * digit_val c + digit_val e, r)]
           else [])
      | _ \<Rightarrow> [])"

definition match_blank :: "string \<Rightarrow> string list" where
  "match_blank s =
     map (\<lambda>k. drop k s) (rev [1 ..< Suc (length (takeWhile isspace s))])"

definition match_directive :: "directive \<Rightarrow> found \<Rightarrow> string \<Rightarrow> (found \<times> string) list" where
  "match_directive t f s =
     (case t of
        Dir_d \<Rightarrow> map (\<lambda>(v, r). (f\<lparr>found_d := Some v\<rparr>, r)) (match_d s)
      | Dir_B \<Rightarrow> map (\<lambda>(v, r). (f\<lparr>found_B := Some v\<rparr>, r)) (match_B s)
      | Dir_Y \<Rightarrow> map (\<lambda>(v, r). (f\<lparr>found_Y := Some v\<rparr>, r)) (match_Y s)
      | Blank \<Rightarrow> map (\<lambda>r. (f, r)) (match_blank s))"

text \<open>All successful paths through a format, the matcher's first choice at the head.\<close>

fun re_match :: "directive list \<Rightarrow> found \<Rightarrow> string \<Rightarrow> (found \<times> string) list" where
  "re_match [] f s = [(f, s)]"
| "re_match (t # ts) f s = concat (map (\<lambda>(f', r). re_match ts f' r) (match_directive t f s))"

definition is_leap :: "nat \<Rightarrow> bool" where
  "is_leap y = (y mod 4 = 0 \<and> (y mod 100 \<noteq> 0 \<or> y mod 400 = 0))"

definition days_in_month :: "nat \<Rightarrow> nat \<Rightarrow> nat" where
  "days_in_month y m =
     (if m = 2 then (if is_leap y then 29 else 28)
      else if m = 4 \<or> m = 6 \<or> m = 9 \<or> m = 11 then 30 else 31)"

definition opt_default :: "'a \<Rightarrow> 'a option \<Rightarrow> 'a" where
  "opt_default x v = (case v of None \<Rightarrow> x | Some y \<Rightarrow> y)"

text \<open>
  A missing year is 1900, a missing month or day is 1. The messages of the
  \<open>ValueError\<close>s are shortened: every handler of the source that can see one drops it.
\<close>

definition strptime :: "string \<Rightarrow> directive list \<Rightarrow> exn + datetime" where
  "strptime data_string format =
     (case re_match format no_groups data_string of
        [] \<Rightarrow> Inl (Exception ''time data does not match format'')
      | (f, rest) # _ \<Rightarrow>
          if rest \<noteq> [] then Inl (Exception (''unconverted data remains: '' @ rest))
          else
            (let y = opt_default 1900 (found_Y f);
                 m = opt_default 1 (found_B f);
                 d = opt_default 1 (found_d f)
             in if y < 1 then Inl (Exception ''year 0 is out of range'')
                else if days_in_month y m < d then Inl (Exception ''day is out of range for month'')
                else Inr \<lparr>year = y, month = m, day = d\<rparr>))"

subsection \<open>The collaborators of \<open>identify\<close>\<close>

text \<open>
  The network, the HTML parser and the serialiser are library code. The model takes them
  as three functions: \<open>urlopen\<close> is lines 47 to 50 (build the request, open it with the
  time-out, read the body), \<open>fromstring\<close> is \<open>etree.fromstring\<close> with the HTML parser, and
  \<open>tostring\<close> is \<open>etree.tostring(_, encoding='unicode', method='html')\<close>.
\<close>

record env =
  urlopen :: "string \<Rightarrow> int \<Rightarrow> exn + bytes"
  fromstring :: "bytes \<Rightarrow> exn + element"
  tostring :: "element \<Rightarrow> string"

text \<open>The object handed to the result queue, with the attributes the source sets.\<close>

record Metadata =
  title :: string
  authors :: string
  publisher :: string
  pubdate :: "datetime option"
  languages :: "string list"
  comments :: string
  isbn :: string
  identifiers :: "(string \<times> string) list"
  tags :: "string list"

text \<open>
  What a call can change: the lines written with \<open>log.info\<close>, the objects put into
  \<open>result_queue\<close>, and the requests sent (URL and time-out), each in order.
\<close>

record world =
  log :: "string list"
  result_queue :: "Metadata list"
  opened :: "(string \<times> int) list"

definition info :: "string \<Rightarrow> world \<Rightarrow> world" where
  "info msg w = w\<lparr>log := log w @ [msg]\<rparr>"

definition put :: "Metadata \<Rightarrow> world \<Rightarrow> world" where
  "put mi w = w\<lparr>result_queue := result_queue w @ [mi]\<rparr>"

text \<open>\<open>d.get(k, default)\<close>, and \<open>a or b\<close> on two pieces of text.\<close>

definition dict_get :: "(string \<rightharpoonup> string) \<Rightarrow> string \<Rightarrow> string \<Rightarrow> string" where
  "dict_get d k dflt = (case d k of None \<Rightarrow> dflt | Some v \<Rightarrow> v)"

definition py_or :: "string \<Rightarrow> string \<Rightarrow> string" where
  "py_or a b = (if a \<noteq> [] then a else b)"

text \<open>Calling \<open>.strip()\<close> or \<open>.replace()\<close> on \<open>None\<close> raises \<open>AttributeError\<close>.\<close>

definition no_attribute :: "string \<Rightarrow> exn" where
  "no_attribute name =
     Exception ([CHR 0x27] @ ''NoneType'' @ [CHR 0x27] @ '' object has no attribute ''
                @ [CHR 0x27] @ name @ [CHR 0x27])"

subsection \<open>The loop over the bibliographic items (lines 60 to 71)\<close>

text \<open>Lines 61 and 63: \<open>label_text = label[0].text.strip() if label else None\<close>.\<close>

definition label_text_of :: "element \<Rightarrow> exn + string option" where
  "label_text_of item =
     (case xpath_desc ''span'' ''class'' ''u-text-bold'' item of
        [] \<Rightarrow> Inr None
      | l # _ \<Rightarrow>
          (case el_text l of
             None \<Rightarrow> Inl (no_attribute ''strip'')
           | Some t \<Rightarrow> Inr (Some (strip t))))"

text \<open>Lines 62 and 64: \<open>value_text = value[0].xpath('string()').strip() if value else None\<close>.\<close>

definition value_text_of :: "element \<Rightarrow> string option" where
  "value_text_of item =
     (case xpath_desc ''span'' ''class'' ''c-bibliographic-information__value'' item of
        [] \<Rightarrow> None
      | v # _ \<Rightarrow> Some (strip (string_value v)))"

text \<open>The truth value of \<open>None\<close> or a piece of text.\<close>

definition truthy :: "string option \<Rightarrow> bool" where
  "truthy x = (case x of None \<Rightarrow> False | Some s \<Rightarrow> s \<noteq> [])"

text \<open>Lines 65 and 66.\<close>

definition record_pair :: "string option \<Rightarrow> string option \<Rightarrow> (string \<rightharpoonup> string) \<Rightarrow> (string \<rightharpoonup> string)" where
  "record_pair label_text value_text meta =
     (case (label_text, value_text) of
        (Some l, Some v) \<Rightarrow> if l \<noteq> [] \<and> v \<noteq> [] then meta(l \<mapsto> v) else meta
      | _ \<Rightarrow> meta)"

text \<open>Lines 68 to 71.\<close>

definition record_date :: "element \<Rightarrow> string option \<Rightarrow> (string \<rightharpoonup> string) \<Rightarrow> exn + (string \<rightharpoonup> string)" where
  "record_date item label_text meta =
     (case label_text of
        None \<Rightarrow> Inr meta
      | Some l \<Rightarrow>
          if l \<noteq> [] \<and> contains ''ISBN'' l then
            (case xpath_desc ''span'' ''data-test'' ''publication_date'' item of
               [] \<Rightarrow> Inr meta
             | date_span # _ \<Rightarrow>
                 (case el_text date_span of
                    None \<Rightarrow> Inl (no_attribute ''replace'')
                  | Some t \<Rightarrow> Inr (meta(l @ '' Date'' \<mapsto> strip (replace ''Published:'' [] t)))))
          else Inr meta)"

text \<open>One pass of the loop body, and the loop.\<close>

definition process_item :: "element \<Rightarrow> (string \<rightharpoonup> string) \<Rightarrow> exn + (string \<rightharpoonup> string)" where
  "process_item item meta =
     (case label_text_of item of
        Inl e \<Rightarrow> Inl e
      | Inr label_text \<Rightarrow>
          record_date item label_text (record_pair label_text (value_text_of item) meta))"

fun build_meta :: "element list \<Rightarrow> (string \<rightharpoonup> string) \<Rightarrow> exn + (string \<rightharpoonup> string)" where
  "build_meta [] meta = Inr meta"
| "build_meta (item # items) meta =
     (case process_item item meta of
        Inl e \<Rightarrow> Inl e
      | Inr meta' \<Rightarrow> build_meta items meta')"

subsection \<open>The fields derived from the map (lines 73 to 109)\<close>

definition title_of :: "(string \<rightharpoonup> string) \<Rightarrow> string" where
  "title_of meta =
     (let title = dict_get meta ''Book Title'' ''Unbekannt'';
          subtitle = dict_get meta ''Book Subtitle'' []
      in if subtitle \<noteq> [] then title @ '': '' @ subtitle else title)"

definition authors_of :: "string \<Rightarrow> string list" where
  "authors_of editors =
     (if CHR '','' \<in> set editors then map strip (split CHR '','' editors)
      else if editors \<noteq> [] then [strip editors] else [])"

definition pubdate_str_of :: "(string \<rightharpoonup> string) \<Rightarrow> string" where
  "pubdate_str_of meta =
     py_or (dict_get meta ''eBook ISBN Date'' []) (dict_get meta ''Softcover ISBN Date'' [])"

definition pubdate_of :: "string \<Rightarrow> datetime option" where
  "pubdate_of pubdate_str =
     (if pubdate_str \<noteq> [] then
        (case strptime pubdate_str fmt_d_B_Y of
           Inr d \<Rightarrow> Some d
         | Inl _ \<Rightarrow>
             (case strptime pubdate_str fmt_B_Y of
                Inr d \<Rightarrow> Some d
              | Inl _ \<Rightarrow>
                  (case strptime pubdate_str fmt_Y of
                     Inr d \<Rightarrow> Some d
                   | Inl _ \<Rightarrow> None)))
      else None)"

subsection \<open>Topics and description (lines 113 to 127)\<close>

text \<open>Line 119: \<open>[a.text.strip() for a in topics_links]\<close>.\<close>

fun link_texts :: "element list \<Rightarrow> exn + string list" where
  "link_texts [] = Inr []"
| "link_texts (a # as) =
     (case el_text a of
        None \<Rightarrow> Inl (no_attribute ''strip'')
      | Some t \<Rightarrow>
          (case link_texts as of
             Inl e \<Rightarrow> Inl e
           | Inr ts \<Rightarrow> Inr (strip t # ts)))"

fun collect_topics :: "element list \<Rightarrow> string list \<Rightarrow> exn + string list" where
  "collect_topics [] topics = Inr topics"
| "collect_topics (item # items) topics =
     (case label_text_of item of
        Inl e \<Rightarrow> Inl e
      | Inr label_text \<Rightarrow>
          if label_text = Some ''Topics'' then
            (case link_texts (xpath_a item) of
               Inl e \<Rightarrow> Inl e
             | Inr ts \<Rightarrow> collect_topics items ts)
          else collect_topics items topics)"

definition comments_of :: "env \<Rightarrow> element \<Rightarrow> string" where
  "comments_of E tree =
     (case xpath_section ''About this book'' tree of
        [] \<Rightarrow> []
      | about # _ \<Rightarrow>
          (case xpath_desc ''div'' ''class'' ''c-book-section'' about of
             [] \<Rightarrow> []
           | about_div # _ \<Rightarrow> tostring E about_div))"

definition bib_items_of :: "element \<Rightarrow> element list" where
  "bib_items_of tree =
     (case xpath_section ''Bibliographic Information'' tree of
        [] \<Rightarrow> []
      | bib # _ \<Rightarrow> xpath_desc ''li'' ''class'' ''c-bibliographic-information__list-item'' bib)"

subsection \<open>\<open>identify\<close>\<close>

text \<open>
  Lines 56 to 137, from the parsed tree to the \<open>put\<close>. The result is \<open>Inl e\<close> when the
  exception \<open>e\<close> leaves the block, with the world as it was at the raise.
\<close>

definition extract_record :: "env \<Rightarrow> string \<Rightarrow> element \<Rightarrow> world \<Rightarrow> (exn + unit) \<times> world" where
  "extract_record E isbn' tree w =
     (let bib_items = bib_items_of tree
      in case build_meta bib_items Map.empty of
           Inl e \<Rightarrow> (Inl e, w)
         | Inr meta \<Rightarrow>
             (let title = title_of meta;
                  editors = dict_get meta ''Editors'' [];
                  w1 = info (''Editors: '' @ editors) w;
                  authors = authors_of editors;
                  authors_str = join '', '' authors;
                  w2 = info (''Authors: '' @ authors_str) w1;
                  doi = dict_get meta ''DOI'' [];
                  publisher = dict_get meta ''Publisher'' ''Springer'';
                  pubdate = pubdate_of (pubdate_str_of meta)
              in case collect_topics bib_items [] of
                   Inl e \<Rightarrow> (Inl e, w2)
                 | Inr topics \<Rightarrow>
                     (let mi = \<lparr>title = title, authors = authors_str, publisher = publisher,
                                pubdate = pubdate, languages = [''de''],
                                comments = comments_of E tree, isbn = isbn',
                                identifiers = [(''doi'', doi), (''isbn'', isbn')],
                                tags = topics\<rparr>
                      in (Inr (), put mi w2))))"

text \<open>
  Lines 47 to 137, the body of the outer \<open>try\<close>. The inner handler takes an \<open>HTTPError\<close>
  of the request, writes its status code and returns; any other exception leaves the block.
\<close>

definition identify_try :: "env \<Rightarrow> string \<Rightarrow> string \<Rightarrow> int \<Rightarrow> world \<Rightarrow> (exn + unit) \<times> world" where
  "identify_try E isbn' url timeout w =
     (let w0 = w\<lparr>opened := opened w @ [(url, timeout)]\<rparr>
      in case urlopen E url timeout of
           Inl (HTTPError c r) \<Rightarrow> (Inr (), info (''Fehler beim Abrufen der Seite: '' @ str_int c) w0)
         | Inl (Exception m) \<Rightarrow> (Inl (Exception m), w0)
         | Inr html \<Rightarrow>
             (case fromstring E html of
                Inl e \<Rightarrow> (Inl e, w0)
              | Inr tree \<Rightarrow> extract_record E isbn' tree w0))"

text \<open>
  The whole method. \<open>identifiers\<close> is \<open>None\<close> or a dictionary, here a list of pairs; the
  arguments \<open>abort\<close>, \<open>title\<close> and \<open>authors\<close> are never read. \<open>isbn_of\<close> is lines 34 to
  36 and \<open>book_url\<close> the f-string of line 42. The second branch on \<open>isbn\<close> (lines 41 to
  45) is written as the source has it. The result is \<open>Inr ()\<close> when the call returns and
  \<open>Inl e\<close> when \<open>e\<close> reaches the caller.
\<close>

definition isbn_of :: "(string \<times> string) list option \<Rightarrow> string option" where
  "isbn_of identifiers' =
     (case identifiers' of
        None \<Rightarrow> None
      | Some d \<Rightarrow> if d \<noteq> [] then map_of d ''isbn'' else None)"

definition book_url :: "string \<Rightarrow> string" where
  "book_url isbn' = ''https://link.springer.com/book/'' @ isbn'"

definition identify ::
  "env \<Rightarrow> world \<Rightarrow> bool \<Rightarrow> string option \<Rightarrow> string list option \<Rightarrow> (string \<times> string) list option
     \<Rightarrow> int \<Rightarrow> (exn + unit) \<times> world" where
  "identify E w abort title' authors' identifiers' timeout =
     (let isbn = isbn_of identifiers'
      in if \<not> truthy isbn then (Inr (), info (''Springer-Plugin ben'' @ [CHR 0xF6] @ ''tigt ISBN.'') w)
         else
           (case isbn of
              None \<Rightarrow> (Inr (), info ''Nur ISBN-Suche ist bisher implementiert.'' w)
            | Some i \<Rightarrow>
                (if i \<noteq> [] then
                   (case identify_try E i (book_url i) timeout w of
                      (Inl e, w') \<Rightarrow> (Inr (), info (''Fehler: '' @ str_exn e) w')
                    | (Inr u, w') \<Rightarrow> (Inr u, w'))
                 else (Inr (), info ''Nur ISBN-Suche ist bisher implementiert.'' w))))"

subsection \<open>Sample pages\<close>

text \<open>
  Concrete inputs on which the theorems below are run. \<open>sample_tree\<close> is a book page with
  a bibliographic section, among its items one whose value is blank, and a description;
  \<open>bare_tree\<close> is a page with no section at all; in \<open>broken_tree\<close> the label of the only
  item has no text of its own, so that line 63 raises. \<open>sample_env\<close> serves the three pages
  under three ISBNs, a body that does not parse under a fourth, and answers every other
  request with status 404.
\<close>

definition li :: "element list \<Rightarrow> element" where
  "li cs = Element ''li'' [(''class'', ''c-bibliographic-information__list-item'')] None cs None"

definition label_span :: "string \<Rightarrow> element" where
  "label_span t = Element ''span'' [(''class'', ''u-text-bold'')] (Some t) [] None"

definition value_span :: "string \<Rightarrow> element list \<Rightarrow> element" where
  "value_span t cs =
     Element ''span'' [(''class'', ''c-bibliographic-information__value'')] (Some t) cs None"

definition sample_tree :: element where
  "sample_tree =
     Element ''html'' [] None
       [Element ''body'' [] None
          [Element ''section'' [(''data-title'', ''Bibliographic Information'')] None
             [li [label_span ''Book Title'', value_span ''Foo'' []],
              li [label_span ''Book Subtitle'', value_span '' Bar '' []],
              li [label_span ''Editors'', value_span ''Jane Doe, John Smith'' []],
              li [label_span ''Publisher'', value_span ''  '' []],
              li [label_span ''eBook ISBN'', value_span ''978-3-16-148410-0'' [],
                  Element ''span'' [(''data-test'', ''ebook_isbn_publication_date'')]
                    (Some ''Published: August 2025'') [] None],
              li [label_span ''Topics'',
                  value_span []
                    [Element ''a'' [] (Some ''Algebra'') [] (Some '', ''),
                     Element ''a'' [] (Some ''Logic'') [] None]]] None,
           Element ''section'' [(''data-title'', ''About this book'')] None
             [Element ''div'' [(''class'', ''c-book-section'')] (Some ''A book.'') [] None] None]
          None] None"

definition sample_meta :: "string \<rightharpoonup> string" where
  "sample_meta =
     [''Book Title'' \<mapsto> ''Foo'', ''Book Subtitle'' \<mapsto> ''Bar'',
      ''Editors'' \<mapsto> ''Jane Doe, John Smith'', ''eBook ISBN'' \<mapsto> ''978-3-16-148410-0'',
      ''eBook ISBN Date'' \<mapsto> ''August 2025'', ''Topics'' \<mapsto> ''Algebra, Logic'']"

definition bare_tree :: element where
  "bare_tree = Element ''html'' [] None [Element ''body'' [] (Some ''Not a book.'') [] None] None"

definition broken_tree :: element where
  "broken_tree =
     Element ''html'' [] None
       [Element ''section'' [(''data-title'', ''Bibliographic Information'')] None
          [li [Element ''span'' [(''class'', ''u-text-bold'')] None
                 [Element ''b'' [] (Some ''Book Title'') [] None] None,
               value_span ''Foo'' []]] None] None"

definition sample_env :: env where
  "sample_env =
     \<lparr>urlopen = (\<lambda>url timeout.
         if url = ''https://link.springer.com/book/9783161484100'' then Inr ''sample''
         else if url = ''https://link.springer.com/book/9780000000002'' then Inr ''bare''
         else if url = ''https://link.springer.com/book/9781111111113'' then Inr ''broken''
         else if url = ''https://link.springer.com/book/9782222222224'' then Inr []
         else Inl (HTTPError 404 ''Not Found'')),
      fromstring = (\<lambda>html.
         if html = ''sample'' then Inr sample_tree
         else if html = ''bare'' then Inr bare_tree
         else if html = ''broken'' then Inr broken_tree
         else Inl (Exception ''Document is empty'')),
      tostring = (\<lambda>e. ''<'' @ tag e @ ''>'' @ string_value e @ ''</'' @ tag e @ ''>'')\<rparr>"

definition empty_world :: world where
  "empty_world = \<lparr>log = [], result_queue = [], opened = []\<rparr>"

text \<open>
  A second environment that serves the sample page under the same ISBN and differs from
  \<open>sample_env\<close> on every other request, and a world in which earlier calls have left
  their traces.
\<close>

definition mirror_env :: env where
  "mirror_env =
     sample_env\<lparr>urlopen := (\<lambda>url timeout.
        if url = ''https://link.springer.com/book/9783161484100'' then Inr ''sample''
        else Inl (Exception ''timed out''))\<rparr>"

definition busy_world :: world where
  "busy_world =
     \<lparr>log = [''earlier line''], result_queue = [],
      opened = [(''https://link.springer.com/book/9780000000002'', 10)]\<rparr>"

subsection \<open>The success path\<close>

text \<open>
  A call is on the success path when an ISBN is there and every step that can fail returns:
  the request, the parser, the loop over the items and the loop over the topics.
\<close>

definition success_path :: "env \<Rightarrow> (string \<times> string) list option \<Rightarrow> int \<Rightarrow> bool" where
  "success_path E identifiers' timeout =
     (case isbn_of identifiers' of
        None \<Rightarrow> False
      | Some i \<Rightarrow>
          i \<noteq> [] \<and>
          (case urlopen E (book_url i) timeout of
             Inl _ \<Rightarrow> False
           | Inr html \<Rightarrow>
               (case fromstring E html of
                  Inl _ \<Rightarrow> False
                | Inr tree \<Rightarrow>
                    \<not> isl (build_meta (bib_items_of tree) Map.empty)
                    \<and> \<not> isl (collect_topics (bib_items_of tree) []))))"

subsection \<open>Trying formats in order\<close>

text \<open>
  The date is parsed by trying a list of formats in order: the first format that
  \<open>strptime\<close> accepts gives the date, and there is no date when none does.
\<close>

fun parse_first :: "string \<Rightarrow> directive list list \<Rightarrow> datetime option" where
  "parse_first s [] = None"
| "parse_first s (format # formats) =
     (case strptime s format of
        Inr d \<Rightarrow> Some d
      | Inl _ \<Rightarrow> parse_first s formats)"

section \<open>Properties\<close>

subsection \<open>The paths through \<open>identify\<close>\<close>

lemma identify_falsy_isbn:
  "\<not> truthy (isbn_of ids) \<Longrightarrow>
   identify E w ab t a ids tmo =
     (Inr (), info (''Springer-Plugin ben'' @ [CHR 0xF6] @ ''tigt ISBN.'') w)"
  by (simp add: identify_def)

lemma identify_with_isbn:
  "isbn_of ids = Some i \<Longrightarrow> i \<noteq> [] \<Longrightarrow>
   identify E w ab t a ids tmo =
     (case identify_try E i (book_url i) tmo w of
        (Inl e, w') \<Rightarrow> (Inr (), info (''Fehler: '' @ str_exn e) w')
      | (Inr u, w') \<Rightarrow> (Inr u, w'))"
  by (simp add: identify_def truthy_def)

lemma isbn_cases:
  obtains "\<not> truthy (isbn_of ids)" | i where "isbn_of ids = Some i" "i \<noteq> []"
  by (cases "isbn_of ids") (auto simp: truthy_def)

subsection \<open>Calls without an ISBN\<close>

text \<open>
  C1. When the identifiers are absent or have no \<open>isbn\<close> entry, \<open>identify\<close> returns having
  written the one fixed line to the log and nothing else: the world after the call is the
  world before it with that line appended, so no request was sent and nothing was put into
  the queue, whatever the other arguments are.
\<close>

theorem identify_without_isbn:
  assumes "ids = None \<or> (\<exists>d. ids = Some d \<and> map_of d ''isbn'' = None)"
  shows "identify E w ab t a ids tmo =
           (Inr (), w\<lparr>log := log w @ [''Springer-Plugin ben'' @ [CHR 0xF6] @ ''tigt ISBN.'']\<rparr>)"
proof -
  from assms have "isbn_of ids = None"
    by (auto simp: isbn_of_def)
  then have "\<not> truthy (isbn_of ids)"
    by (simp add: truthy_def)
  then show ?thesis
    by (simp add: identify_falsy_isbn info_def)
qed

theorem identify_without_isbn_witness:
  "map_of [(''doi'', ''10.1007/978-3-16-148410-0'')] ''isbn'' = None
   \<and> identify sample_env empty_world False (Some ''Foo'') (Some [''Jane Doe''])
        (Some [(''doi'', ''10.1007/978-3-16-148410-0'')]) 5
     = (Inr (), \<lparr>log = [''Springer-Plugin ben'' @ [CHR 0xF6] @ ''tigt ISBN.''],
                 result_queue = [], opened = []\<rparr>)"
  using identify_without_isbn [of "Some [(''doi'', ''10.1007/978-3-16-148410-0'')]"
      sample_env empty_world False "Some ''Foo''" "Some [''Jane Doe'']" 5]
  by (simp add: empty_world_def)

subsection \<open>At most one record\<close>

lemma extract_record_queue:
  "extract_record E i tree w = (r, w') \<Longrightarrow>
   \<exists>pushed. result_queue w' = result_queue w @ pushed \<and> length pushed \<le> 1
     \<and> (pushed \<noteq> [] \<longleftrightarrow> \<not> isl (build_meta (bib_items_of tree) Map.empty)
                           \<and> \<not> isl (collect_topics (bib_items_of tree) []))
     \<and> (pushed \<noteq> [] \<longrightarrow> r = Inr ()) \<and> (pushed = [] \<longrightarrow> isl r)"
  by (auto simp: extract_record_def Let_def info_def put_def split: sum.splits)

lemma identify_try_queue:
  "identify_try E i (book_url i) tmo w = (r, w') \<Longrightarrow>
   \<exists>pushed. result_queue w' = result_queue w @ pushed \<and> length pushed \<le> 1
     \<and> (pushed \<noteq> [] \<longleftrightarrow>
          (case urlopen E (book_url i) tmo of
             Inl _ \<Rightarrow> False
           | Inr html \<Rightarrow>
               (case fromstring E html of
                  Inl _ \<Rightarrow> False
                | Inr tree \<Rightarrow>
                    \<not> isl (build_meta (bib_items_of tree) Map.empty)
                    \<and> \<not> isl (collect_topics (bib_items_of tree) []))))
     \<and> (isl r \<longrightarrow> pushed = [])"
  apply (simp add: identify_try_def Let_def info_def split: sum.splits exn.splits)
    apply auto[2]
  apply (auto dest!: extract_record_queue)
  done

text \<open>
  C2. Every call appends at most one record to the queue, and it appends one exactly on the
  success path: without an ISBN, after a failed request (an \<open>HTTPError\<close> or any other
  exception), and after an exception of the parser or of either loop, the queue is as it
  was before the call.
\<close>

theorem identify_at_most_one_record:
  "\<exists>pushed. result_queue (snd (identify E w ab t a ids tmo)) = result_queue w @ pushed
     \<and> length pushed \<le> 1 \<and> (pushed \<noteq> [] \<longleftrightarrow> success_path E ids tmo)"
proof (cases ids rule: isbn_cases)
  case 1
  then have "\<not> success_path E ids tmo"
    by (auto simp: success_path_def truthy_def split: option.splits)
  with 1 show ?thesis
    by (simp add: identify_falsy_isbn info_def)
next
  case (2 i)
  obtain r w' where run: "identify_try E i (book_url i) tmo w = (r, w')"
    by (cases "identify_try E i (book_url i) tmo w")
  from identify_try_queue [OF run] obtain pushed where
    p: "result_queue w' = result_queue w @ pushed" "length pushed \<le> 1"
       "pushed \<noteq> [] \<longleftrightarrow> success_path E ids tmo"
    using 2 by (auto simp: success_path_def)
  have "result_queue (snd (identify E w ab t a ids tmo)) = result_queue w'"
    using 2 run by (cases r) (simp_all add: identify_with_isbn info_def)
  with p show ?thesis by auto
qed


theorem identify_at_most_one_record_witness:
  "success_path sample_env (Some [(''isbn'', ''9783161484100'')]) 30
   \<and> length (result_queue (snd (identify sample_env empty_world False None None
                (Some [(''isbn'', ''9783161484100'')]) 30))) = 1
   \<and> \<not> success_path sample_env (Some [(''isbn'', ''9781111111113'')]) 30
   \<and> result_queue (snd (identify sample_env empty_world False None None
                (Some [(''isbn'', ''9781111111113'')]) 30)) = []"
proof -
  have ok: "success_path sample_env (Some [(''isbn'', ''9783161484100'')]) 30"
    by code_simp
  have bad: "\<not> success_path sample_env (Some [(''isbn'', ''9781111111113'')]) 30"
    by code_simp
  show ?thesis
    using ok bad
      identify_at_most_one_record [of sample_env empty_world False None None
        "Some [(''isbn'', ''9783161484100'')]" 30]
      identify_at_most_one_record [of sample_env empty_world False None None
        "Some [(''isbn'', ''9781111111113'')]" 30]
    by (auto simp: empty_world_def le_Suc_eq)
qed

subsection \<open>Exceptions never reach the caller\<close>






subsection \<open>A request answered with an error status\<close>

text \<open>\<open>str_nat\<close> writes the decimal digits of a number, most significant first.\<close>

lemma str_nat_digits: "str_nat n \<noteq> [] \<and> (\<forall>ch \<in> set (str_nat n). isdigit ch)"
proof (induction n rule: str_nat.induct)
  case (1 n)
  have d: "isdigit (digit_char k)" if "k < 10" for k
    using that by (simp add: isdigit_def digit_char_def)
  show ?case
  proof (cases "n < 10")
    case True
    then show ?thesis by (simp add: str_nat.simps [of n] d)
  next
    case False
    with 1 show ?thesis by (simp add: str_nat.simps [of n] d)
  qed
qed

lemma str_nat_value: "foldl (\<lambda>acc ch. 10 * acc + digit_val ch) 0 (str_nat n) = n"
proof (induction n rule: str_nat.induct)
  case (1 n)
  have d: "digit_val (digit_char k) = k" if "k < 10" for k
    using that by (simp add: digit_val_def digit_char_def)
  show ?case
  proof (cases "n < 10")
    case True
    then show ?thesis by (simp add: str_nat.simps [of n] d)
  next
    case False
    with 1 show ?thesis by (simp add: str_nat.simps [of n] d)
  qed
qed



subsection \<open>The record that is put into the queue\<close>

lemma identify_emits:
  assumes "isbn_of ids = Some i" and "i \<noteq> []"
      and "urlopen E (book_url i) tmo = Inr html"
      and "fromstring E html = Inr tree"
      and "build_meta (bib_items_of tree) Map.empty = Inr meta"
      and "collect_topics (bib_items_of tree) [] = Inr topics"
  shows "identify E w ab t a ids tmo =
           (Inr (),
            w\<lparr>log := log w @ [''Editors: '' @ dict_get meta ''Editors'' [],
                              ''Authors: '' @ join '', '' (authors_of (dict_get meta ''Editors'' []))],
              result_queue := result_queue w @
                [\<lparr>title = title_of meta,
                  authors = join '', '' (authors_of (dict_get meta ''Editors'' [])),
                  publisher = dict_get meta ''Publisher'' ''Springer'',
                  pubdate = pubdate_of (pubdate_str_of meta),
                  languages = [''de''],
                  comments = comments_of E tree,
                  isbn = i,
                  identifiers = [(''doi'', dict_get meta ''DOI'' []), (''isbn'', i)],
                  tags = topics\<rparr>],
              opened := opened w @ [(book_url i, tmo)]\<rparr>)"
  using assms
  by (simp add: identify_with_isbn identify_try_def extract_record_def Let_def info_def put_def)

text \<open>
  C5. When the page is fetched and parsed and has neither a section titled
  \<open>Bibliographic Information\<close> nor one titled \<open>About this book\<close> (so no item, and no
  \<open>Topics\<close> item, is looked at), the call puts exactly one record into the queue: title
  \<open>Unbekannt\<close>, empty author string, publisher \<open>Springer\<close>, no date, languages \<open>['de']\<close>,
  no tags, empty comments, and the ISBN of the call.
\<close>

theorem identify_page_without_markers:
  assumes "isbn_of ids = Some i" and "i \<noteq> []"
      and "urlopen E (book_url i) tmo = Inr html"
      and "fromstring E html = Inr tree"
      and "xpath_section ''Bibliographic Information'' tree = []"
      and "xpath_section ''About this book'' tree = []"
  shows "identify E w ab t a ids tmo =
           (Inr (),
            w\<lparr>log := log w @ [''Editors: '', ''Authors: ''],
              result_queue := result_queue w @
                [\<lparr>title = ''Unbekannt'', authors = [], publisher = ''Springer'',
                  pubdate = None, languages = [''de''], comments = [], isbn = i,
                  identifiers = [(''doi'', []), (''isbn'', i)], tags = []\<rparr>],
              opened := opened w @ [(book_url i, tmo)]\<rparr>)"
proof -
  have items: "bib_items_of tree = []"
    using assms(5) by (simp add: bib_items_of_def)
  have meta: "build_meta (bib_items_of tree) Map.empty = Inr Map.empty"
    and topics: "collect_topics (bib_items_of tree) [] = Inr []"
    by (simp_all add: items)
  have comments: "comments_of E tree = []"
    using assms(6) by (simp add: comments_of_def)
  show ?thesis
    using identify_emits [OF assms(1-4) meta topics, of w ab t a]
    by (simp add: comments title_of_def dict_get_def authors_of_def pubdate_of_def
        pubdate_str_of_def py_or_def)
qed

theorem identify_page_without_markers_witness:
  "isbn_of (Some [(''isbn'', ''9780000000002'')]) = Some ''9780000000002''
   \<and> ''9780000000002'' \<noteq> []
   \<and> urlopen sample_env (book_url ''9780000000002'') 30 = Inr ''bare''
   \<and> fromstring sample_env ''bare'' = Inr bare_tree
   \<and> xpath_section ''Bibliographic Information'' bare_tree = []
   \<and> xpath_section ''About this book'' bare_tree = []
   \<and> identify sample_env empty_world False None None (Some [(''isbn'', ''9780000000002'')]) 30
     = (Inr (),
        \<lparr>log = [''Editors: '', ''Authors: ''],
         result_queue =
           [\<lparr>title = ''Unbekannt'', authors = [], publisher = ''Springer'', pubdate = None,
             languages = [''de''], comments = [], isbn = ''9780000000002'',
             identifiers = [(''doi'', []), (''isbn'', ''9780000000002'')], tags = []\<rparr>],
         opened = [(''https://link.springer.com/book/9780000000002'', 30)]\<rparr>)"
proof -
  have h1: "isbn_of (Some [(''isbn'', ''9780000000002'')]) = Some ''9780000000002''"
    by code_simp
  have h2: "''9780000000002'' \<noteq> []"
    by simp
  have h3: "urlopen sample_env (book_url ''9780000000002'') 30 = Inr ''bare''"
    by code_simp
  have h4: "fromstring sample_env ''bare'' = Inr bare_tree"
    by code_simp
  have h5: "xpath_section ''Bibliographic Information'' bare_tree = []"
    by code_simp
  have h6: "xpath_section ''About this book'' bare_tree = []"
    by code_simp
  show ?thesis
    using h1 h3 h4 h5 h6
      identify_page_without_markers [OF h1 h2 h3 h4 h5 h6, of empty_world False None None]
    by (simp add: empty_world_def book_url_def)
qed

subsection \<open>The library functions on text\<close>


lemma dropWhile_strip:
  "dropWhile isspace s = strip s @ rev (takeWhile isspace (rev (dropWhile isspace s)))"
proof -
  let ?m = "dropWhile isspace s"
  have "rev (rev ?m) = rev (takeWhile isspace (rev ?m) @ dropWhile isspace (rev ?m))"
    by (simp only: takeWhile_dropWhile_id)
  then show ?thesis
    unfolding strip_def by (simp only: rev_rev_ident rev_append)
qed

lemma strip_decomp:
  "\<exists>pre post. s = pre @ strip s @ post \<and> (\<forall>c \<in> set pre. isspace c) \<and> (\<forall>c \<in> set post. isspace c)"
proof -
  let ?m = "dropWhile isspace s"
  let ?post = "rev (takeWhile isspace (rev ?m))"
  have "s = takeWhile isspace s @ ?m" by simp
  also have "?m = strip s @ ?post" by (rule dropWhile_strip)
  finally have "s = takeWhile isspace s @ strip s @ ?post" .
  moreover have "\<forall>c \<in> set (takeWhile isspace s). isspace c"
    by (auto dest: set_takeWhileD)
  moreover have "\<forall>c \<in> set ?post. isspace c"
    by (auto dest: set_takeWhileD)
  ultimately show ?thesis by blast
qed

lemma strip_ends:
  assumes "strip s \<noteq> []"
  shows "\<not> isspace (hd (strip s)) \<and> \<not> isspace (last (strip s))"
proof -
  let ?m = "dropWhile isspace s"
  let ?r = "dropWhile isspace (rev ?m)"
  from assms have r: "?r \<noteq> []" by (simp add: strip_def)
  then have l: "\<not> isspace (hd ?r)" by (rule hd_dropWhile)
  have last: "last (strip s) = hd ?r"
    using r by (simp add: strip_def last_rev)
  have m: "?m \<noteq> []"
  proof
    assume "?m = []"
    then have "?r = []" by (simp only: rev.simps dropWhile.simps)
    with r show False by (simp only:)
  qed
  then have h: "\<not> isspace (hd ?m)" by (rule hd_dropWhile)
  have "hd ?m = hd (strip s @ rev (takeWhile isspace (rev ?m)))"
    using dropWhile_strip [of s] by simp
  with assms have "hd ?m = hd (strip s)" by simp
  with h l last show ?thesis by simp
qed

lemma split_not_Nil: "split sep s \<noteq> []"
  by (induction s) (auto split: list.splits)

lemma split_join: "join [sep] (split sep s) = s"
proof (induction s)
  case Nil
  show ?case by simp
next
  case (Cons c cs)
  obtain seg segs where sp: "split sep cs = seg # segs"
    using split_not_Nil [of sep cs] by (cases "split sep cs") auto
  show ?case
  proof (cases "c = sep")
    case True
    with Cons sp show ?thesis by simp
  next
    case False
    with Cons sp show ?thesis by (cases segs) auto
  qed
qed

lemma split_no_sep: "seg \<in> set (split sep s) \<Longrightarrow> sep \<notin> set seg"
proof (induction s arbitrary: seg)
  case Nil
  then show ?case by simp
next
  case (Cons c cs)
  then show ?case
    by (cases "split sep cs") (auto split: if_splits)
qed

lemma length_split: "length (split sep s) = Suc (count_list s sep)"
proof (induction s)
  case Nil
  show ?case by simp
next
  case (Cons c cs)
  then show ?case
    by (cases "split sep cs") auto
qed

subsection \<open>The formats of the date\<close>

text \<open>A directive that is not in the format leaves its field unset.\<close>

lemma match_directive_keeps_d:
  "(f', r) \<in> set (match_directive t f s) \<Longrightarrow> t \<noteq> Dir_d \<Longrightarrow> found_d f' = found_d f"
  by (cases t) (auto simp: match_directive_def)

lemma match_directive_keeps_B:
  "(f', r) \<in> set (match_directive t f s) \<Longrightarrow> t \<noteq> Dir_B \<Longrightarrow> found_B f' = found_B f"
  by (cases t) (auto simp: match_directive_def)

lemma re_match_keeps_d:
  "(f', r) \<in> set (re_match format f s) \<Longrightarrow> Dir_d \<notin> set format \<Longrightarrow> found_d f' = found_d f"
proof (induction format arbitrary: f s)
  case Nil
  then show ?case by simp
next
  case (Cons t ts)
  from Cons.prems(1) obtain f1 r1 where
    step: "(f1, r1) \<in> set (match_directive t f s)" and rest: "(f', r) \<in> set (re_match ts f1 r1)"
    by auto
  from Cons.prems(2) have "t \<noteq> Dir_d" and "Dir_d \<notin> set ts" by auto
  with Cons.IH [OF rest] match_directive_keeps_d [OF step] show ?case by simp
qed

lemma re_match_keeps_B:
  "(f', r) \<in> set (re_match format f s) \<Longrightarrow> Dir_B \<notin> set format \<Longrightarrow> found_B f' = found_B f"
proof (induction format arbitrary: f s)
  case Nil
  then show ?case by simp
next
  case (Cons t ts)
  from Cons.prems(1) obtain f1 r1 where
    step: "(f1, r1) \<in> set (match_directive t f s)" and rest: "(f', r) \<in> set (re_match ts f1 r1)"
    by auto
  from Cons.prems(2) have "t \<noteq> Dir_B" and "Dir_B \<notin> set ts" by auto
  with Cons.IH [OF rest] match_directive_keeps_B [OF step] show ?case by simp
qed

lemma strptime_head:
  assumes "strptime s format = Inr d"
  obtains f where "(f, []) \<in> set (re_match format no_groups s)"
    and "year d = opt_default 1900 (found_Y f)"
    and "month d = opt_default 1 (found_B f)"
    and "day d = opt_default 1 (found_d f)"
proof (cases "re_match format no_groups s")
  case Nil
  with assms show ?thesis by (simp add: strptime_def)
next
  case (Cons p ps)
  obtain f rest where p: "p = (f, rest)" by (cases p)
  with assms Cons have "rest = []"
    and "d = \<lparr>year = opt_default 1900 (found_Y f), month = opt_default 1 (found_B f),
              day = opt_default 1 (found_d f)\<rparr>"
    by (auto simp: strptime_def Let_def split: if_splits)
  with Cons p that [of f] show ?thesis by simp
qed

lemma strptime_no_day:
  assumes "strptime s format = Inr d" and "Dir_d \<notin> set format"
  shows "day d = 1"
proof -
  from assms(1) obtain f where m: "(f, []) \<in> set (re_match format no_groups s)"
    and d: "day d = opt_default 1 (found_d f)"
    by (rule strptime_head)
  from re_match_keeps_d [OF m assms(2)] have "found_d f = None"
    by (simp add: no_groups_def)
  with d show ?thesis by (simp add: opt_default_def)
qed

lemma strptime_no_month:
  assumes "strptime s format = Inr d" and "Dir_B \<notin> set format"
  shows "month d = 1"
proof -
  from assms(1) obtain f where m: "(f, []) \<in> set (re_match format no_groups s)"
    and d: "month d = opt_default 1 (found_B f)"
    by (rule strptime_head)
  from re_match_keeps_B [OF m assms(2)] have "found_B f = None"
    by (simp add: no_groups_def)
  with d show ?thesis by (simp add: opt_default_def)
qed

lemma pubdate_of_parse_first:
  "pubdate_of s = (if s = [] then None else parse_first s [fmt_d_B_Y, fmt_B_Y, fmt_Y])"
  by (simp add: pubdate_of_def split: sum.splits)

lemma pubdate_str_of_cases:
  "pubdate_str_of meta =
     (case meta ''eBook ISBN Date'' of
        Some v \<Rightarrow> if v \<noteq> [] then v else dict_get meta ''Softcover ISBN Date'' []
      | None \<Rightarrow> dict_get meta ''Softcover ISBN Date'' [])"
  by (simp add: pubdate_str_of_def py_or_def dict_get_def split: option.splits)

lemma pubdate_of_meta:
  "pubdate_of (pubdate_str_of meta) =
     (let softcover = (case meta ''Softcover ISBN Date'' of None \<Rightarrow> [] | Some v \<Rightarrow> v);
          pubdate_str = (case meta ''eBook ISBN Date'' of
                           None \<Rightarrow> softcover
                         | Some v \<Rightarrow> if v \<noteq> [] then v else softcover)
      in if pubdate_str = [] then None
         else parse_first pubdate_str [fmt_d_B_Y, fmt_B_Y, fmt_Y])"
  by (cases "meta ''eBook ISBN Date''"; cases "meta ''Softcover ISBN Date''")
     (simp_all add: pubdate_of_parse_first pubdate_str_of_def py_or_def dict_get_def)

subsection \<open>The sample page\<close>

lemma sample_items: "bib_items_of sample_tree =
             [li [label_span ''Book Title'', value_span ''Foo'' []],
              li [label_span ''Book Subtitle'', value_span '' Bar '' []],
              li [label_span ''Editors'', value_span ''Jane Doe, John Smith'' []],
              li [label_span ''Publisher'', value_span ''  '' []],
              li [label_span ''eBook ISBN'', value_span ''978-3-16-148410-0'' [],
                  Element ''span'' [(''data-test'', ''ebook_isbn_publication_date'')]
                    (Some ''Published: August 2025'') [] None],
              li [label_span ''Topics'',
                  value_span []
                    [Element ''a'' [] (Some ''Algebra'') [] (Some '', ''),
                     Element ''a'' [] (Some ''Logic'') [] None]]]"
  by code_simp

lemma sample_meta_ok: "build_meta (bib_items_of sample_tree) Map.empty = Inr sample_meta"
  unfolding sample_items
  apply (simp add: sample_meta_def process_item_def label_text_of_def value_text_of_def
     record_pair_def record_date_def xpath_desc_def attr_contains_def li_def label_span_def value_span_def
     opt_text_def strip_def isspace_def)
  done

lemma sample_topics_ok: "collect_topics (bib_items_of sample_tree) [] = Inr [''Algebra'', ''Logic'']"
  by code_simp


lemma sample_isbn: "isbn_of (Some [(''isbn'', ''9783161484100'')]) = Some ''9783161484100''"
  by code_simp

lemma sample_isbn_nonempty: "''9783161484100'' \<noteq> []"
  by simp

lemma sample_urlopen: "urlopen sample_env (book_url ''9783161484100'') 30 = Inr ''sample''"
  by code_simp

lemma sample_fromstring: "fromstring sample_env ''sample'' = Inr sample_tree"
  by code_simp

lemmas sample_run =
  sample_isbn sample_isbn_nonempty sample_urlopen sample_fromstring sample_meta_ok sample_topics_ok

subsection \<open>Title\<close>

text \<open>
  C8. The title of the record that is put into the queue is the \<open>Book Title\<close> value of the
  map, or \<open>Unbekannt\<close> when the map has none; when the map has a non-empty
  \<open>Book Subtitle\<close>, a colon, a blank and the subtitle follow. On the sample page, with
  title \<open>Foo\<close> and subtitle \<open>Bar\<close>, the title is \<open>Foo: Bar\<close>.
\<close>

theorem emitted_title:
  assumes "isbn_of ids = Some i" and "i \<noteq> []"
      and "urlopen E (book_url i) tmo = Inr html"
      and "fromstring E html = Inr tree"
      and "build_meta (bib_items_of tree) Map.empty = Inr meta"
      and "collect_topics (bib_items_of tree) [] = Inr topics"
  shows "\<exists>mi. result_queue (snd (identify E w ab t a ids tmo)) = result_queue w @ [mi]
           \<and> title mi =
               (case meta ''Book Title'' of None \<Rightarrow> ''Unbekannt'' | Some v \<Rightarrow> v)
               @ (case meta ''Book Subtitle'' of
                    None \<Rightarrow> []
                  | Some sub \<Rightarrow> if sub = [] then [] else '': '' @ sub)"
  by (simp add: identify_emits [OF assms] title_of_def dict_get_def split: option.splits)

theorem emitted_title_witness:
  "build_meta (bib_items_of sample_tree) Map.empty = Inr sample_meta
   \<and> sample_meta ''Book Title'' = Some ''Foo''
   \<and> sample_meta ''Book Subtitle'' = Some ''Bar''
   \<and> map title (result_queue (snd (identify sample_env empty_world False None None
                                      (Some [(''isbn'', ''9783161484100'')]) 30)))
     = [''Foo: Bar'']"
  using emitted_title [OF sample_run, of empty_world False None None] sample_meta_ok
  by (auto simp: sample_meta_def empty_world_def)

subsection \<open>Authors\<close>

text \<open>
  C7. The list of names comes from the \<open>Editors\<close> value of the map: with a comma in it,
  the value is split at the commas and every segment stripped; without a comma and not
  empty, the stripped value is the one name; absent or empty, the list is empty. The
  record carries the names joined with a comma and a blank.
  \<open>Jane Doe, John Smith\<close> gives two names and \<open>Jane Doe\<close> gives one.
\<close>

theorem emitted_authors:
  assumes "isbn_of ids = Some i" and "i \<noteq> []"
      and "urlopen E (book_url i) tmo = Inr html"
      and "fromstring E html = Inr tree"
      and "build_meta (bib_items_of tree) Map.empty = Inr meta"
      and "collect_topics (bib_items_of tree) [] = Inr topics"
  shows "(\<exists>mi. result_queue (snd (identify E w ab t a ids tmo)) = result_queue w @ [mi]
            \<and> authors mi = join '', '' (authors_of (dict_get meta ''Editors'' [])))
         \<and> authors_of (dict_get meta ''Editors'' []) =
             (case meta ''Editors'' of
                None \<Rightarrow> []
              | Some v \<Rightarrow>
                  if CHR '','' \<in> set v then map strip (split CHR '','' v)
                  else if v \<noteq> [] then [strip v] else [])
         \<and> authors_of ''Jane Doe, John Smith'' = [''Jane Doe'', ''John Smith'']
         \<and> authors_of ''Jane Doe'' = [''Jane Doe'']"
proof (intro conjI)
  show "\<exists>mi. result_queue (snd (identify E w ab t a ids tmo)) = result_queue w @ [mi]
            \<and> authors mi = join '', '' (authors_of (dict_get meta ''Editors'' []))"
    by (simp add: identify_emits [OF assms])
  show "authors_of (dict_get meta ''Editors'' []) =
             (case meta ''Editors'' of
                None \<Rightarrow> []
              | Some v \<Rightarrow>
                  if CHR '','' \<in> set v then map strip (split CHR '','' v)
                  else if v \<noteq> [] then [strip v] else [])"
    by (simp add: authors_of_def dict_get_def split: option.splits)
  show "authors_of ''Jane Doe, John Smith'' = [''Jane Doe'', ''John Smith'']"
    by code_simp
  show "authors_of ''Jane Doe'' = [''Jane Doe'']"
    by code_simp
qed

theorem emitted_authors_witness:
  "build_meta (bib_items_of sample_tree) Map.empty = Inr sample_meta
   \<and> sample_meta ''Editors'' = Some ''Jane Doe, John Smith''
   \<and> authors_of (dict_get sample_meta ''Editors'' []) = [''Jane Doe'', ''John Smith'']
   \<and> map authors (result_queue (snd (identify sample_env empty_world False None None
                                        (Some [(''isbn'', ''9783161484100'')]) 30)))
     = [''Jane Doe, John Smith'']"
proof -
  have e: "dict_get sample_meta ''Editors'' [] = ''Jane Doe, John Smith''"
    by (simp add: sample_meta_def dict_get_def)
  note T = emitted_authors [OF sample_run, of empty_world False None None]
  have l: "authors_of (dict_get sample_meta ''Editors'' []) = [''Jane Doe'', ''John Smith'']"
    unfolding e by code_simp
  from T obtain mi where
    "result_queue (snd (identify sample_env empty_world False None None
        (Some [(''isbn'', ''9783161484100'')]) 30)) = result_queue empty_world @ [mi]"
    and "authors mi = join '', '' (authors_of (dict_get sample_meta ''Editors'' []))"
    by blast
  then show ?thesis
    using l e sample_meta_ok by (simp add: empty_world_def sample_meta_def)
qed

subsection \<open>Publication date\<close>

text \<open>
  C6. The text of the date is the \<open>eBook ISBN Date\<close> value of the map when it is there
  and not empty, else the \<open>Softcover ISBN Date\<close> value, else empty. A non-empty text is
  tried against day month year, then month year, then year, and the first format that
  parses gives the date of the record; a month and year give the first day of the month, a
  year alone gives the first of January; when no format parses the record has no date, and
  the record is put into the queue all the same.
\<close>

theorem emitted_pubdate:
  assumes "isbn_of ids = Some i" and "i \<noteq> []"
      and "urlopen E (book_url i) tmo = Inr html"
      and "fromstring E html = Inr tree"
      and "build_meta (bib_items_of tree) Map.empty = Inr meta"
      and "collect_topics (bib_items_of tree) [] = Inr topics"
  shows "(\<exists>mi. result_queue (snd (identify E w ab t a ids tmo)) = result_queue w @ [mi]
            \<and> pubdate mi =
                (let softcover = (case meta ''Softcover ISBN Date'' of None \<Rightarrow> [] | Some v \<Rightarrow> v);
                     pubdate_str = (case meta ''eBook ISBN Date'' of
                                      None \<Rightarrow> softcover
                                    | Some v \<Rightarrow> if v \<noteq> [] then v else softcover)
                 in if pubdate_str = [] then None
                    else parse_first pubdate_str [fmt_d_B_Y, fmt_B_Y, fmt_Y]))
         \<and> (\<forall>s d. strptime s fmt_B_Y = Inr d \<longrightarrow> day d = 1)
         \<and> (\<forall>s d. strptime s fmt_Y = Inr d \<longrightarrow> month d = 1 \<and> day d = 1)
         \<and> pubdate_of ''30 August 2025'' = Some \<lparr>year = 2025, month = 8, day = 30\<rparr>
         \<and> pubdate_of ''August 2025'' = Some \<lparr>year = 2025, month = 8, day = 1\<rparr>
         \<and> pubdate_of ''2025'' = Some \<lparr>year = 2025, month = 1, day = 1\<rparr>
         \<and> pubdate_of ''Summer 2025'' = None"
proof (intro conjI allI impI)
  show "\<exists>mi. result_queue (snd (identify E w ab t a ids tmo)) = result_queue w @ [mi]
            \<and> pubdate mi =
                (let softcover = (case meta ''Softcover ISBN Date'' of None \<Rightarrow> [] | Some v \<Rightarrow> v);
                     pubdate_str = (case meta ''eBook ISBN Date'' of
                                      None \<Rightarrow> softcover
                                    | Some v \<Rightarrow> if v \<noteq> [] then v else softcover)
                 in if pubdate_str = [] then None
                    else parse_first pubdate_str [fmt_d_B_Y, fmt_B_Y, fmt_Y])"
    by (simp add: identify_emits [OF assms] pubdate_of_meta)
next
  fix s d
  assume "strptime s fmt_B_Y = Inr d"
  then show "day d = 1"
    by (rule strptime_no_day) (simp add: fmt_B_Y_def)
next
  fix s d
  assume p: "strptime s fmt_Y = Inr d"
  then show "month d = 1"
    by (rule strptime_no_month) (simp add: fmt_Y_def)
  from p show "day d = 1"
    by (rule strptime_no_day) (simp add: fmt_Y_def)
next
  show "pubdate_of ''30 August 2025'' = Some \<lparr>year = 2025, month = 8, day = 30\<rparr>"
    by code_simp
  show "pubdate_of ''August 2025'' = Some \<lparr>year = 2025, month = 8, day = 1\<rparr>"
    by code_simp
  show "pubdate_of ''2025'' = Some \<lparr>year = 2025, month = 1, day = 1\<rparr>"
    by code_simp
  show "pubdate_of ''Summer 2025'' = None"
    by code_simp
qed

theorem emitted_pubdate_witness:
  "build_meta (bib_items_of sample_tree) Map.empty = Inr sample_meta
   \<and> sample_meta ''eBook ISBN Date'' = Some ''August 2025''
   \<and> strptime ''August 2025'' fmt_d_B_Y = Inl (Exception ''time data does not match format'')
   \<and> strptime ''August 2025'' fmt_B_Y = Inr \<lparr>year = 2025, month = 8, day = 1\<rparr>
   \<and> map pubdate (result_queue (snd (identify sample_env empty_world False None None
                                        (Some [(''isbn'', ''9783161484100'')]) 30)))
     = [Some \<lparr>year = 2025, month = 8, day = 1\<rparr>]"
proof -
  have p1: "strptime ''August 2025'' fmt_d_B_Y = Inl (Exception ''time data does not match format'')"
    by code_simp
  have p2: "strptime ''August 2025'' fmt_B_Y = Inr \<lparr>year = 2025, month = 8, day = 1\<rparr>"
    by code_simp
  note T = emitted_pubdate [OF sample_run, of empty_world False None None]
  from T p2 have "day \<lparr>year = 2025, month = 8, day = 1\<rparr> = 1"
    by blast
  from T obtain mi where
    "result_queue (snd (identify sample_env empty_world False None None
        (Some [(''isbn'', ''9783161484100'')]) 30)) = result_queue empty_world @ [mi]"
    and "pubdate mi = parse_first ''August 2025'' [fmt_d_B_Y, fmt_B_Y, fmt_Y]"
    by (auto simp: sample_meta_def Let_def)
  then show ?thesis
    using p1 p2 sample_meta_ok by (simp add: empty_world_def sample_meta_def)
qed

subsection \<open>Determinism\<close>

text \<open>
  A call adds to the log, the queue and the list of requests what the same call adds to the
  empty world, and it reads the environment only through the answer to its one request,
  the parser and the serialiser.
\<close>

lemma identify_frame:
  "identify E w ab t a ids tmo =
     (let r = identify E empty_world False None None ids tmo
      in (fst r, w\<lparr>log := log w @ log (snd r),
                   result_queue := result_queue w @ result_queue (snd r),
                   opened := opened w @ opened (snd r)\<rparr>))"
proof (cases ids rule: isbn_cases)
  case 1
  then show ?thesis
    by (simp add: identify_falsy_isbn info_def empty_world_def)
next
  case (2 i)
  then show ?thesis
    by (simp add: identify_with_isbn identify_try_def extract_record_def Let_def info_def
        put_def empty_world_def split: sum.splits exn.splits)
qed

lemma identify_env_cong:
  assumes "\<forall>i. isbn_of ids = Some i \<longrightarrow> urlopen E1 (book_url i) tmo = urlopen E2 (book_url i) tmo"
      and "fromstring E1 = fromstring E2" and "tostring E1 = tostring E2"
  shows "identify E1 w ab t a ids tmo = identify E2 w ab t a ids tmo"
proof (cases ids rule: isbn_cases)
  case 1
  then show ?thesis
    by (simp add: identify_falsy_isbn)
next
  case (2 i)
  with assms(1) have u: "urlopen E1 (book_url i) tmo = urlopen E2 (book_url i) tmo"
    by simp
  have c: "comments_of E1 = comments_of E2"
    by (simp add: comments_of_def assms(3) fun_eq_iff split: list.splits)
  have x: "extract_record E1 i tree w' = extract_record E2 i tree w'" for tree w'
    by (simp only: extract_record_def c)
  have "identify_try E1 i (book_url i) tmo w = identify_try E2 i (book_url i) tmo w"
    by (simp only: identify_try_def u assms(2) x)
  with 2 show ?thesis
    by (simp add: identify_with_isbn)
qed

text \<open>
  C9. Two calls with the same identifiers and time-out, against the same answer to the
  request and with the same parser and serialiser, add the same log lines, the same
  records (none, or one record equal in every field) and the same request, whatever the
  hints \<open>title\<close> and \<open>authors\<close>, the flag \<open>abort\<close> and the earlier contents of log and queue
  are, and whatever the two environments answer to other requests.
\<close>

theorem identify_deterministic:
  assumes "\<forall>i. isbn_of ids = Some i \<longrightarrow> urlopen E1 (book_url i) tmo = urlopen E2 (book_url i) tmo"
      and "fromstring E1 = fromstring E2" and "tostring E1 = tostring E2"
  shows "\<exists>lines pushed requests.
           log (snd (identify E1 w1 ab1 t1 a1 ids tmo)) = log w1 @ lines
         \<and> log (snd (identify E2 w2 ab2 t2 a2 ids tmo)) = log w2 @ lines
         \<and> result_queue (snd (identify E1 w1 ab1 t1 a1 ids tmo)) = result_queue w1 @ pushed
         \<and> result_queue (snd (identify E2 w2 ab2 t2 a2 ids tmo)) = result_queue w2 @ pushed
         \<and> opened (snd (identify E1 w1 ab1 t1 a1 ids tmo)) = opened w1 @ requests
         \<and> opened (snd (identify E2 w2 ab2 t2 a2 ids tmo)) = opened w2 @ requests"
proof -
  let ?r1 = "identify E1 empty_world False None None ids tmo"
  let ?r2 = "identify E2 empty_world False None None ids tmo"
  have "?r1 = ?r2"
    using assms by (rule identify_env_cong)
  then show ?thesis
    by (simp add: identify_frame [of E1 w1] identify_frame [of E2 w2] Let_def)
qed

theorem identify_deterministic_witness:
  "urlopen sample_env (book_url ''9783161484100'') 30 = urlopen mirror_env (book_url ''9783161484100'') 30
   \<and> urlopen sample_env (book_url ''9780000000002'') 30 \<noteq> urlopen mirror_env (book_url ''9780000000002'') 30
   \<and> fromstring sample_env = fromstring mirror_env
   \<and> tostring sample_env = tostring mirror_env
   \<and> result_queue (snd (identify sample_env empty_world False None None
                           (Some [(''isbn'', ''9783161484100'')]) 30))
     = result_queue (snd (identify mirror_env busy_world True (Some ''Foo'') (Some [''Jane Doe''])
                           (Some [(''isbn'', ''9783161484100'')]) 30))
   \<and> length (result_queue (snd (identify sample_env empty_world False None None
                           (Some [(''isbn'', ''9783161484100'')]) 30))) = 1"
proof -
  have u: "urlopen sample_env (book_url ''9783161484100'') 30
             = urlopen mirror_env (book_url ''9783161484100'') 30"
    by code_simp
  have d: "urlopen sample_env (book_url ''9780000000002'') 30
             \<noteq> urlopen mirror_env (book_url ''9780000000002'') 30"
    by code_simp
  have f: "fromstring sample_env = fromstring mirror_env"
    and s: "tostring sample_env = tostring mirror_env"
    by (simp_all add: mirror_env_def)
  have h: "\<forall>i. isbn_of (Some [(''isbn'', ''9783161484100'')]) = Some i \<longrightarrow>
             urlopen sample_env (book_url i) 30 = urlopen mirror_env (book_url i) 30"
    using u by (simp add: sample_isbn)
  have n: "length (result_queue (snd (identify sample_env empty_world False None None
                           (Some [(''isbn'', ''9783161484100'')]) 30))) = 1"
    by (simp add: identify_emits [OF sample_run] empty_world_def)
  show ?thesis
    using u d f s n
      identify_deterministic [OF h f s, of empty_world False None None busy_world True
        "Some ''Foo''" "Some [''Jane Doe'']"]
    by (auto simp: empty_world_def busy_world_def)
qed

subsection \<open>The pairs of the map\<close>







end
